theory Spec2Isabelle
  imports Complex_Main "HOL-Library.FSet"
begin

section \<open>The ensemble generators of make\_ensembles.py\<close>

text \<open>
  The development embeds \<^verbatim>\<open>src/make_ensembles.py\<close>: the walks that extract
  the statistics of every plan of a chain, the aggregation of the regional
  ensembles, the seat counts of the regions, and the two generators that tie
  them together. District tallies and node attributes are Python integers
  (\<open>int\<close>); the results of Python's true division \<^verbatim>\<open>/\<close> are
  modelled as exact rationals (\<open>rat\<close>), so the rounding of the binary
  floating-point quotient is not part of the model. Every exception the code
  can raise is a value of type \<open>error\<close>, returned as \<open>Inl\<close>.
\<close>

subsection \<open>Errors and Python arithmetic\<close>

datatype error =
  ZeroDivisionError | KeyError | ValueError | SeatMismatch | ConstructionFailure | ChainStalled

definition ebind :: "error + 'a \<Rightarrow> ('a \<Rightarrow> error + 'b) \<Rightarrow> error + 'b" where
  "ebind m f = (case m of Inl e \<Rightarrow> Inl e | Inr v \<Rightarrow> f v)"

text \<open>Python's \<^verbatim>\<open>a / b\<close> on numbers: raises on a zero divisor.\<close>

definition true_div :: "rat \<Rightarrow> rat \<Rightarrow> error + rat" where
  "true_div a b = (if b = 0 then Inl ZeroDivisionError else Inr (a / b))"

subsection \<open>Partitions as the walks read them\<close>

text \<open>
  A graph has nodes, edges and per-node attributes
  (\<^verbatim>\<open>graph.nodes()[node][key]\<close>). A partition carries its graph and the
  assignment of nodes to districts; the walks read it through its updaters
  only: \<^verbatim>\<open>part['cut_edges']\<close> is a set of edges, and every
  \<^verbatim>\<open>Tally\<close> updater is a dictionary from district label to the district's
  sum, looked up as \<^verbatim>\<open>part[alias][i]\<close>. Both lookups raise
  \<^verbatim>\<open>KeyError\<close> on a missing key.
\<close>

record graph =
  nodes :: "nat list"
  edges :: "(nat \<times> nat) list"
  node_attr :: "nat \<Rightarrow> string \<rightharpoonup> int"

record partition =
  graph :: graph
  assignment :: "nat \<rightharpoonup> nat"
  cut_edges :: "(nat \<times> nat) fset"
  tally :: "string \<rightharpoonup> (nat \<rightharpoonup> int)"

definition no_graph :: graph where
  "no_graph = \<lparr>nodes = [], edges = [], node_attr = (\<lambda>_. Map.empty)\<rparr>"

definition get_tally :: "partition \<Rightarrow> string \<Rightarrow> nat \<Rightarrow> error + int" where
  "get_tally part alias i =
     (case tally part alias of
        None \<Rightarrow> Inl KeyError
      | Some d \<Rightarrow> (case d i of None \<Rightarrow> Inl KeyError | Some v \<Rightarrow> Inr v))"

subsection \<open>The demographic walk (lines 275--286)\<close>

text \<open>
  The test of line 282,
  \<^verbatim>\<open>part['district_hispanic_latino_pop'][i] / part['district_totpop'][i] > 0.5\<close>.
\<close>

definition is_majmin :: "partition \<Rightarrow> nat \<Rightarrow> error + bool" where
  "is_majmin part i =
     ebind (get_tally part ''district_hispanic_latino_pop'' i) (\<lambda>h.
     ebind (get_tally part ''district_totpop'' i) (\<lambda>t.
     ebind (true_div (of_int h) (of_int t)) (\<lambda>q.
     Inr (q > 1 / 2))))"

text \<open>The inner loop over \<^verbatim>\<open>range(num_districts)\<close>, with the counter.\<close>

fun count_majmin :: "partition \<Rightarrow> nat list \<Rightarrow> nat \<Rightarrow> error + nat" where
  "count_majmin part [] count = Inr count"
| "count_majmin part (i # rest) count =
     ebind (is_majmin part i) (\<lambda>b.
     count_majmin part rest (if b then count + 1 else count))"

definition majmin :: "partition \<Rightarrow> nat \<Rightarrow> error + nat" where
  "majmin part num_districts = count_majmin part [0..<num_districts] 0"

text \<open>
  The outer loop \<^verbatim>\<open>for part in rw\<close>: the chain is the list of the
  partitions it yields, in order; the two ensembles grow by one element per
  partition.
\<close>

fun walk_demographic_loop ::
  "partition list \<Rightarrow> nat \<Rightarrow> nat list \<times> nat list \<Rightarrow> error + (nat list \<times> nat list)" where
  "walk_demographic_loop [] num_districts ens = Inr ens"
| "walk_demographic_loop (part # rw) num_districts (cutedges_ens, majmin_ens) =
     ebind (majmin part num_districts) (\<lambda>count.
     walk_demographic_loop rw num_districts
       (cutedges_ens @ [fcard (cut_edges part)], majmin_ens @ [count]))"

definition walk_demographic ::
  "partition list \<Rightarrow> nat \<Rightarrow> error + (nat list \<times> nat list)" where
  "walk_demographic rw num_districts = walk_demographic_loop rw num_districts ([], [])"

text \<open>The two districts of the spec's scenario, each as a one-district partition.\<close>

definition demo_part :: "int \<Rightarrow> int \<Rightarrow> partition" where
  "demo_part h t =
     \<lparr>graph = no_graph, assignment = Map.empty, cut_edges = {||},
      tally = [''district_totpop'' \<mapsto> [0 \<mapsto> t],
               ''district_hispanic_latino_pop'' \<mapsto> [0 \<mapsto> h]]\<rparr>"

subsection \<open>The voting walk (lines 687--726)\<close>

text \<open>
  The variables of the loop over the districts of one plan: \<^verbatim>\<open>seats\<close>,
  \<^verbatim>\<open>wasted_democrat\<close>, \<^verbatim>\<open>wasted_republican\<close> and
  \<^verbatim>\<open>plan_totvotes\<close>, all initialised to zero (lines 692--697).
\<close>

record plan_vars =
  seats :: nat
  wasted_democrat :: rat
  wasted_republican :: rat
  plan_totvotes :: int

definition init_vars :: plan_vars where
  "init_vars = \<lparr>seats = 0, wasted_democrat = 0, wasted_republican = 0, plan_totvotes = 0\<rparr>"

text \<open>
  The body of the loop (lines 701--718) for district \<open>i\<close>. The Republican
  test comes first; the Democrat quotient is computed only when it fails.
\<close>

definition district_step :: "partition \<Rightarrow> nat \<Rightarrow> plan_vars \<Rightarrow> error + plan_vars" where
  "district_step part i v =
     ebind (get_tally part ''district_totvotes'' i) (\<lambda>totvotes.
     let votes_needed = (of_int totvotes :: rat) / 2 in
     ebind (get_tally part ''district_republican_votes'' i) (\<lambda>votes_republican.
     ebind (get_tally part ''district_democrat_votes'' i) (\<lambda>votes_democrat.
     ebind (true_div (of_int votes_republican) (of_int totvotes)) (\<lambda>share_republican.
     ebind
       (if share_republican > 1 / 2 then
          Inr (v\<lparr>seats := seats v + 1,
                 wasted_republican :=
                   wasted_republican v + (of_int votes_republican - votes_needed),
                 wasted_democrat := wasted_democrat v + of_int votes_democrat\<rparr>)
        else
          ebind (true_div (of_int votes_democrat) (of_int totvotes)) (\<lambda>share_democrat.
          if share_democrat > 1 / 2 then
            Inr (v\<lparr>wasted_republican := wasted_republican v + of_int votes_republican,
                   wasted_democrat :=
                     wasted_democrat v + (of_int votes_democrat - votes_needed)\<rparr>)
          else Inr v))
       (\<lambda>v'. Inr (v'\<lparr>plan_totvotes := plan_totvotes v' + totvotes\<rparr>))))))"

fun district_loop :: "partition \<Rightarrow> nat list \<Rightarrow> plan_vars \<Rightarrow> error + plan_vars" where
  "district_loop part [] v = Inr v"
| "district_loop part (i # rest) v =
     ebind (district_step part i v) (\<lambda>v'. district_loop part rest v')"

definition tally_districts :: "partition \<Rightarrow> nat \<Rightarrow> error + plan_vars" where
  "tally_districts part num_districts = district_loop part [0..<num_districts] init_vars"

text \<open>Line 721: \<^verbatim>\<open>gap = (wasted_democrat - wasted_republican) / plan_totvotes\<close>.\<close>

definition gap_of :: "plan_vars \<Rightarrow> error + rat" where
  "gap_of v = true_div (wasted_democrat v - wasted_republican v) (of_int (plan_totvotes v))"

definition efficiency_gap :: "partition \<Rightarrow> nat \<Rightarrow> error + rat" where
  "efficiency_gap part num_districts = ebind (tally_districts part num_districts) gap_of"

fun walk_voting_loop ::
  "partition list \<Rightarrow> nat \<Rightarrow> nat list \<times> nat list \<times> rat list \<Rightarrow>
   error + (nat list \<times> nat list \<times> rat list)" where
  "walk_voting_loop [] num_districts ens = Inr ens"
| "walk_voting_loop (part # rw) num_districts
     (cutedges_ens, republican_seats_ens, efficiency_gap_ens) =
     ebind (tally_districts part num_districts) (\<lambda>v.
     ebind (gap_of v) (\<lambda>gap.
     walk_voting_loop rw num_districts
       (cutedges_ens @ [fcard (cut_edges part)],
        republican_seats_ens @ [seats v],
        efficiency_gap_ens @ [gap])))"

definition walk_voting ::
  "partition list \<Rightarrow> nat \<Rightarrow> error + (nat list \<times> nat list \<times> rat list)" where
  "walk_voting rw num_districts = walk_voting_loop rw num_districts ([], [], [])"

text \<open>A one-district plan with the given cast total and party votes.\<close>

definition vote_part :: "int \<Rightarrow> int \<Rightarrow> int \<Rightarrow> partition" where
  "vote_part t r d =
     \<lparr>graph = no_graph, assignment = Map.empty, cut_edges = {||},
      tally = [''district_totvotes'' \<mapsto> [0 \<mapsto> t],
               ''district_republican_votes'' \<mapsto> [0 \<mapsto> r],
               ''district_democrat_votes'' \<mapsto> [0 \<mapsto> d]]\<rparr>"






subsection \<open>Sample plans\<close>

definition two_demo :: partition where
  "two_demo =
     \<lparr>graph = no_graph, assignment = Map.empty, cut_edges = {|(0, 1)|},
      tally = [''district_totpop'' \<mapsto> [0 \<mapsto> 100, 1 \<mapsto> 100],
               ''district_hispanic_latino_pop'' \<mapsto> [0 \<mapsto> 51, 1 \<mapsto> 50]]\<rparr>"

definition two_votes :: partition where
  "two_votes =
     \<lparr>graph = no_graph, assignment = Map.empty, cut_edges = {|(0, 1)|},
      tally = [''district_totvotes'' \<mapsto> [0 \<mapsto> 100, 1 \<mapsto> 100],
               ''district_republican_votes'' \<mapsto> [0 \<mapsto> 60, 1 \<mapsto> 30],
               ''district_democrat_votes'' \<mapsto> [0 \<mapsto> 40, 1 \<mapsto> 70]]\<rparr>"

subsection \<open>Aggregating the regional ensembles (lines 330--350, 770--801)\<close>

text \<open>
  Every Cal 3 ensemble is the comprehension
  \<^verbatim>\<open>[norcal + cal + socal for norcal, cal, socal in zip(a, b, c)]\<close>;
  Python's \<^verbatim>\<open>zip\<close> stops at the shortest argument. The elements are
  integers (cut edges, counts) or quotients (efficiency gaps).
\<close>

definition cal3 :: "'a::plus list \<Rightarrow> 'a list \<Rightarrow> 'a list \<Rightarrow> 'a list" where
  "cal3 norcal_ens cal_ens socal_ens =
     map (\<lambda>(norcal, cal, socal). norcal + cal + socal) (zip norcal_ens (zip cal_ens socal_ens))"

subsection \<open>Seat counts of the three regions (lines 130--153, 511--560)\<close>

text \<open>
  Python's \<^verbatim>\<open>round\<close> of a quotient: the nearest integer, a tie going
  to the even neighbour.
\<close>

definition py_round :: "rat \<Rightarrow> int" where
  "py_round x =
     (let f = \<lfloor>x\<rfloor>; d = x - of_int f
      in if d < 1 / 2 then f
         else if 1 / 2 < d then f + 1
         else if even f then f else f + 1)"

definition num_districts_california :: int where
  "num_districts_california = 52"

text \<open>
  One element of the comprehension of lines 147--150,
  \<^verbatim>\<open>round(num_districts_california * (totpop / totpop_california))\<close>.
\<close>

definition regional_seats :: "int \<Rightarrow> int \<Rightarrow> error + int" where
  "regional_seats totpop totpop_california =
     ebind (true_div (of_int totpop) (of_int totpop_california)) (\<lambda>share.
     Inr (py_round (of_int num_districts_california * share)))"

text \<open>
  The three counts and the check of lines 152--153; the exception raised
  there is \<open>SeatMismatch\<close>.
\<close>

definition seats_demographic :: "int \<Rightarrow> int \<Rightarrow> int \<Rightarrow> int \<Rightarrow> error + (int \<times> int \<times> int)" where
  "seats_demographic totpop_california totpop_norcal totpop_cal totpop_socal =
     ebind (regional_seats totpop_norcal totpop_california) (\<lambda>num_districts_norcal.
     ebind (regional_seats totpop_cal totpop_california) (\<lambda>num_districts_cal.
     ebind (regional_seats totpop_socal totpop_california) (\<lambda>num_districts_socal.
     if num_districts_norcal + num_districts_cal + num_districts_socal
          \<noteq> num_districts_california
     then Inl SeatMismatch
     else Inr (num_districts_norcal, num_districts_cal, num_districts_socal))))"

text \<open>
  The voting generator adds one to the count of Cal before the same check
  (line 554, \<^verbatim>\<open>num_districts_cal += 1\<close>).
\<close>

definition seats_voting :: "int \<Rightarrow> int \<Rightarrow> int \<Rightarrow> int \<Rightarrow> error + (int \<times> int \<times> int)" where
  "seats_voting totpop_california totpop_norcal totpop_cal totpop_socal =
     ebind (regional_seats totpop_norcal totpop_california) (\<lambda>num_districts_norcal.
     ebind (regional_seats totpop_cal totpop_california) (\<lambda>num_districts_cal0.
     ebind (regional_seats totpop_socal totpop_california) (\<lambda>num_districts_socal.
     let num_districts_cal = num_districts_cal0 + 1 in
     if num_districts_norcal + num_districts_cal + num_districts_socal
          \<noteq> num_districts_california
     then Inl SeatMismatch
     else Inr (num_districts_norcal, num_districts_cal, num_districts_socal))))"

subsection \<open>The Markov chain and its population constraint\<close>

text \<open>
  \<^verbatim>\<open>__markov_chain\<close> (lines 234--241) builds a chain from a proposal, one
  constraint, the acceptance function \<^verbatim>\<open>always_accept\<close>, the initial
  state and the number of steps. A proposal reads the shared random generator,
  whose state has type \<open>'r\<close>: it takes the state and returns the new one.
\<close>

record 'r chain =
  proposal :: "partition \<Rightarrow> 'r \<Rightarrow> partition option \<times> 'r"
  constraints :: "(partition \<Rightarrow> bool) list"
  accept :: "partition \<Rightarrow> bool"
  initial_state :: partition
  total_steps :: nat

definition always_accept :: "partition \<Rightarrow> bool" where
  "always_accept part = True"

definition markov_chain ::
  "(partition \<Rightarrow> 'r \<Rightarrow> partition option \<times> 'r) \<Rightarrow> (partition \<Rightarrow> bool) \<Rightarrow> partition \<Rightarrow> nat
   \<Rightarrow> 'r chain" where
  "markov_chain proposal' constraint initial_state' steps =
     \<lparr>proposal = proposal', constraints = [constraint], accept = always_accept,
      initial_state = initial_state', total_steps = steps\<rparr>"

text \<open>
  Modelled from the spec: the Markov chain driver (the class
  \<^verbatim>\<open>MarkovChain\<close> the source imports; its code is not part of the
  sources). Spec 4.5 and 7: the initial state is step 0; a candidate that fails
  validation is discarded and a new one is drawn; a failed proposal is retried;
  valid candidates are accepted by the acceptance function; when the retry
  ceiling is exceeded the chain fails with \<open>ChainStalled\<close>; the chain ends
  after the requested number of steps. \<open>run_chain\<close> returns the states the
  chain yields, in order, and the state of the random generator afterwards.
\<close>

definition is_valid :: "'r chain \<Rightarrow> partition \<Rightarrow> bool" where
  "is_valid ch part = list_all (\<lambda>constraint. constraint part) (constraints ch)"

fun next_state :: "'r chain \<Rightarrow> nat \<Rightarrow> partition \<Rightarrow> 'r \<Rightarrow> error + (partition \<times> 'r)" where
  "next_state ch 0 state r = Inl ChainStalled"
| "next_state ch (Suc attempts) state r =
     (case proposal ch state r of
        (None, r') \<Rightarrow> next_state ch attempts state r'
      | (Some candidate, r') \<Rightarrow>
          if is_valid ch candidate
          then Inr (if accept ch candidate then candidate else state, r')
          else next_state ch attempts state r')"

fun chain_steps ::
  "'r chain \<Rightarrow> nat \<Rightarrow> nat \<Rightarrow> partition \<Rightarrow> 'r \<Rightarrow> error + (partition list \<times> 'r)" where
  "chain_steps ch max_attempts 0 state r = Inr ([], r)"
| "chain_steps ch max_attempts (Suc k) state r =
     ebind (next_state ch max_attempts state r) (\<lambda>(state', r').
     ebind (chain_steps ch max_attempts k state' r') (\<lambda>(rest, r'').
     Inr (state' # rest, r'')))"

definition run_chain :: "nat \<Rightarrow> 'r chain \<Rightarrow> 'r \<Rightarrow> error + (partition list \<times> 'r)" where
  "run_chain max_attempts ch r =
     (case total_steps ch of
        0 \<Rightarrow> Inr ([], r)
      | Suc k \<Rightarrow>
          ebind (chain_steps ch max_attempts k (initial_state ch) r) (\<lambda>(rest, r').
          Inr (initial_state ch # rest, r')))"

text \<open>
  Modelled from the spec: the population constraint (the function
  \<^verbatim>\<open>within_percent_of_ideal_population\<close> the source imports; its code is
  not part of the sources). Spec 4.4 and the glossary: every district's
  primary sum lies within the relative tolerance of the ideal value, which is
  the total of the partition the constraint is built from divided by its
  number of districts.
\<close>

definition within_tolerance :: "partition \<Rightarrow> string \<Rightarrow> rat \<Rightarrow> rat \<Rightarrow> bool" where
  "within_tolerance part pop_key ideal_population percent =
     (case tally part pop_key of
        None \<Rightarrow> False
      | Some d \<Rightarrow> \<forall>i\<in>dom d. \<bar>of_int (the (d i)) - ideal_population\<bar> \<le> percent * ideal_population)"

definition ideal_population_of :: "partition \<Rightarrow> string \<Rightarrow> error + rat" where
  "ideal_population_of initial_partition pop_key =
     (case tally initial_partition pop_key of
        None \<Rightarrow> Inl KeyError
      | Some d \<Rightarrow> true_div (of_int (\<Sum>i\<in>dom d. the (d i))) (of_nat (card (dom d))))"

definition within_percent_of_ideal_population ::
  "partition \<Rightarrow> rat \<Rightarrow> string \<Rightarrow> error + (partition \<Rightarrow> bool)" where
  "within_percent_of_ideal_population initial_partition percent pop_key =
     ebind (ideal_population_of initial_partition pop_key) (\<lambda>ideal_population.
     Inr (\<lambda>part. within_tolerance part pop_key ideal_population percent))"

text \<open>Lines 211 and 623: \<^verbatim>\<open>pop_tolerance = 0.02\<close>.\<close>

definition pop_tolerance :: rat where
  "pop_tolerance = 2 / 100"


text \<open>A proposal that always proposes the sample plan, for the sample chain.\<close>

definition steady :: "partition \<Rightarrow> unit \<Rightarrow> partition option \<times> unit" where
  "steady part r = (Some two_demo, r)"

subsection \<open>The two generators\<close>

text \<open>
  The updaters of a partition (lines 168--172, 575--580): the cut edges and
  tallies of node attributes under an alias.
\<close>

datatype updater = Cut_edges | Tally string

text \<open>
  The functions the generators import are parameters of the model, collected
  in a record: \<^verbatim>\<open>random.seed\<close>, which replaces the state of the shared
  generator by one that depends on the seed alone;
  \<^verbatim>\<open>recursive_tree_part\<close> and \<^verbatim>\<open>recom\<close>, which read and advance
  that state; the constructor \<^verbatim>\<open>Partition\<close>; and the retry ceiling of
  the chain driver. Each is a function of its arguments and of the state of the
  generator.
\<close>

record 'r engine =
  random_seed :: "int \<Rightarrow> 'r"
  recursive_tree_part ::
    "graph \<Rightarrow> nat list \<Rightarrow> rat \<Rightarrow> string \<Rightarrow> rat \<Rightarrow> nat \<Rightarrow> 'r \<Rightarrow> error + ((nat \<rightharpoonup> nat) \<times> 'r)"
  Partition :: "graph \<Rightarrow> (nat \<rightharpoonup> nat) \<Rightarrow> (string \<times> updater) list \<Rightarrow> partition"
  recom :: "partition \<Rightarrow> string \<Rightarrow> rat \<Rightarrow> rat \<Rightarrow> nat \<Rightarrow> 'r \<Rightarrow> partition option \<times> 'r"
  retry_ceiling :: nat

text \<open>
  \<^verbatim>\<open>__random_partitions\<close> (lines 21--46): the loop over the seeds, which
  seeds the generator before each plan, and the list of partitions.
\<close>

fun make_plans ::
  "'r engine \<Rightarrow> graph \<Rightarrow> int \<Rightarrow> rat \<Rightarrow> string \<Rightarrow> rat \<Rightarrow> int list \<Rightarrow> 'r
   \<Rightarrow> error + ((nat \<rightharpoonup> nat) list \<times> 'r)" where
  "make_plans E graph' num_districts idealpop totpop_key tolerance [] r = Inr ([], r)"
| "make_plans E graph' num_districts idealpop totpop_key tolerance (seed # seeds) r =
     ebind (recursive_tree_part E graph' [0..<nat num_districts] idealpop totpop_key
              tolerance 10 (random_seed E seed)) (\<lambda>(plan, r').
     ebind (make_plans E graph' num_districts idealpop totpop_key tolerance seeds r')
       (\<lambda>(plans, r'').
     Inr (plan # plans, r'')))"

definition random_partitions ::
  "'r engine \<Rightarrow> graph \<Rightarrow> int \<Rightarrow> rat \<Rightarrow> string \<Rightarrow> rat \<Rightarrow> (string \<times> updater) list \<Rightarrow> int list
   \<Rightarrow> 'r \<Rightarrow> error + (partition list \<times> 'r)" where
  "random_partitions E graph' num_districts idealpop totpop_key tolerance updaters seeds r =
     ebind (make_plans E graph' num_districts idealpop totpop_key tolerance seeds r)
       (\<lambda>(plans, r').
     Inr (map (\<lambda>plan. Partition E graph' plan updaters) plans, r'))"

text \<open>
  The total of a node attribute over a graph (lines 134--141, 521--528).
\<close>

fun attr_values :: "graph \<Rightarrow> string \<Rightarrow> nat list \<Rightarrow> error + int list" where
  "attr_values g key [] = Inr []"
| "attr_values g key (node # rest) =
     (case node_attr g node key of
        None \<Rightarrow> Inl KeyError
      | Some v \<Rightarrow> ebind (attr_values g key rest) (\<lambda>vs. Inr (v # vs)))"

definition graph_total :: "graph \<Rightarrow> string \<Rightarrow> error + int" where
  "graph_total g key = ebind (attr_values g key (nodes g)) (\<lambda>vs. Inr (sum_list vs))"

text \<open>
  The population variables (lines 130--162, 511--569): the ideal population
  of California, the three seat counts and the three regional ideal
  populations. The two generators differ in the attribute and in the seat
  counts.
\<close>

type_synonym pop_vars = "rat \<times> (int \<times> int \<times> int) \<times> (rat \<times> rat \<times> rat)"

definition ideal_pops ::
  "int \<Rightarrow> int \<Rightarrow> int \<Rightarrow> int \<times> int \<times> int \<Rightarrow> error + (rat \<times> rat \<times> rat)" where
  "ideal_pops totpop_norcal totpop_cal totpop_socal num_districts =
     (case num_districts of (num_districts_norcal, num_districts_cal, num_districts_socal) \<Rightarrow>
     ebind (true_div (of_int totpop_norcal) (of_int num_districts_norcal)) (\<lambda>idealpop_norcal.
     ebind (true_div (of_int totpop_cal) (of_int num_districts_cal)) (\<lambda>idealpop_cal.
     ebind (true_div (of_int totpop_socal) (of_int num_districts_socal)) (\<lambda>idealpop_socal.
     Inr (idealpop_norcal, idealpop_cal, idealpop_socal)))))"

definition population_variables ::
  "(int \<Rightarrow> int \<Rightarrow> int \<Rightarrow> int \<Rightarrow> error + (int \<times> int \<times> int)) \<Rightarrow> string \<Rightarrow>
   graph \<Rightarrow> graph \<Rightarrow> graph \<Rightarrow> graph \<Rightarrow> error + pop_vars" where
  "population_variables seat_counts key graph_california graph_norcal graph_cal graph_socal =
     ebind (graph_total graph_california key) (\<lambda>totpop_california.
     ebind (graph_total graph_norcal key) (\<lambda>totpop_norcal.
     ebind (graph_total graph_cal key) (\<lambda>totpop_cal.
     ebind (graph_total graph_socal key) (\<lambda>totpop_socal.
     ebind (true_div (of_int totpop_california) (of_int num_districts_california))
       (\<lambda>idealpop_california.
     ebind (seat_counts totpop_california totpop_norcal totpop_cal totpop_socal)
       (\<lambda>num_districts.
     ebind (ideal_pops totpop_norcal totpop_cal totpop_socal num_districts) (\<lambda>idealpops.
     Inr (idealpop_california, num_districts, idealpops))))))))"

text \<open>Tuple unpacking of a list of known length.\<close>

definition unpack2 :: "'a list \<Rightarrow> error + ('a \<times> 'a)" where
  "unpack2 xs = (case xs of [a, b] \<Rightarrow> Inr (a, b) | _ \<Rightarrow> Inl ValueError)"

definition unpack3 :: "'a list \<Rightarrow> error + ('a \<times> 'a \<times> 'a)" where
  "unpack3 xs = (case xs of [a, b, c] \<Rightarrow> Inr (a, b, c) | _ \<Rightarrow> Inl ValueError)"

text \<open>
  Nine of a kind: three for California, two for each of NorCal, Cal and SoCal.
\<close>

type_synonym 'a nine = "('a \<times> 'a \<times> 'a) \<times> ('a \<times> 'a) \<times> ('a \<times> 'a) \<times> ('a \<times> 'a)"

text \<open>
  The initial partitions (lines 174--206, 582--618), built in this order with
  the seeds 0, 3, 4 and 0, 1.
\<close>

definition initial_partitions ::
  "'r engine \<Rightarrow> string \<Rightarrow> (string \<times> updater) list \<Rightarrow> graph \<Rightarrow> graph \<Rightarrow> graph \<Rightarrow> graph \<Rightarrow>
   pop_vars \<Rightarrow> 'r \<Rightarrow> error + (partition nine \<times> 'r)" where
  "initial_partitions E totpop_key my_updaters graph_california graph_norcal graph_cal
     graph_socal vars r =
     (case vars of (idealpop_california,
        (num_districts_norcal, num_districts_cal, num_districts_socal),
        (idealpop_norcal, idealpop_cal, idealpop_socal)) \<Rightarrow>
     ebind (random_partitions E graph_california num_districts_california idealpop_california
              totpop_key (2 / 100) my_updaters [0, 3, 4] r) (\<lambda>(parts_california, r1).
     ebind (unpack3 parts_california) (\<lambda>part_california.
     ebind (random_partitions E graph_norcal num_districts_norcal idealpop_norcal
              totpop_key (2 / 100) my_updaters [0, 1] r1) (\<lambda>(parts_norcal, r2).
     ebind (unpack2 parts_norcal) (\<lambda>part_norcal.
     ebind (random_partitions E graph_cal num_districts_cal idealpop_cal
              totpop_key (2 / 100) my_updaters [0, 1] r2) (\<lambda>(parts_cal, r3).
     ebind (unpack2 parts_cal) (\<lambda>part_cal.
     ebind (random_partitions E graph_socal num_districts_socal idealpop_socal
              totpop_key (2 / 100) my_updaters [0, 1] r3) (\<lambda>(parts_socal, r4).
     ebind (unpack2 parts_socal) (\<lambda>part_socal.
     Inr ((part_california, part_norcal, part_cal, part_socal), r4))))))))))"

text \<open>
  The proposals, constraints and chains (lines 211--270, 623--682). Each
  region's constraint is built from its first partition.
\<close>

definition recom_proposal ::
  "'r engine \<Rightarrow> string \<Rightarrow> rat \<Rightarrow> partition \<Rightarrow> 'r \<Rightarrow> partition option \<times> 'r" where
  "recom_proposal E pop_col idealpop part r = recom E part pop_col idealpop pop_tolerance 1 r"

definition prepare_walks ::
  "'r engine \<Rightarrow> string \<Rightarrow> string \<Rightarrow> nat \<Rightarrow> pop_vars \<Rightarrow> partition nine \<Rightarrow> error + 'r chain nine"
  where
  "prepare_walks E pop_col pop_key steps vars parts =
     (case vars of (idealpop_california, num_districts,
        (idealpop_norcal, idealpop_cal, idealpop_socal)) \<Rightarrow>
      case parts of ((part_california_1, part_california_2, part_california_3),
        (part_norcal_1, part_norcal_2), (part_cal_1, part_cal_2),
        (part_socal_1, part_socal_2)) \<Rightarrow>
     ebind (within_percent_of_ideal_population part_california_1 pop_tolerance pop_key)
       (\<lambda>constraint_california.
     ebind (within_percent_of_ideal_population part_norcal_1 pop_tolerance pop_key)
       (\<lambda>constraint_norcal.
     ebind (within_percent_of_ideal_population part_cal_1 pop_tolerance pop_key)
       (\<lambda>constraint_cal.
     ebind (within_percent_of_ideal_population part_socal_1 pop_tolerance pop_key)
       (\<lambda>constraint_socal.
     let proposal_california = recom_proposal E pop_col idealpop_california;
         proposal_norcal = recom_proposal E pop_col idealpop_norcal;
         proposal_cal = recom_proposal E pop_col idealpop_cal;
         proposal_socal = recom_proposal E pop_col idealpop_socal
     in Inr
       ((markov_chain proposal_california constraint_california part_california_1 steps,
         markov_chain proposal_california constraint_california part_california_2 steps,
         markov_chain proposal_california constraint_california part_california_3 steps),
        (markov_chain proposal_norcal constraint_norcal part_norcal_1 steps,
         markov_chain proposal_norcal constraint_norcal part_norcal_2 steps),
        (markov_chain proposal_cal constraint_cal part_cal_1 steps,
         markov_chain proposal_cal constraint_cal part_cal_2 steps),
        (markov_chain proposal_socal constraint_socal part_socal_1 steps,
         markov_chain proposal_socal constraint_socal part_socal_2 steps)))))))"

text \<open>
  The nine walks, in the order of lines 293--323 and 733--763; each iterates
  its chain, so the state of the generator is threaded through them.
\<close>

definition do_walks ::
  "('r chain \<Rightarrow> nat \<Rightarrow> 'r \<Rightarrow> error + ('e \<times> 'r)) \<Rightarrow> 'r chain nine \<Rightarrow> int \<times> int \<times> int \<Rightarrow> 'r
   \<Rightarrow> error + ('e nine \<times> 'r)" where
  "do_walks walk rws num_districts r =
     (case rws of ((rw_california_1, rw_california_2, rw_california_3),
        (rw_norcal_1, rw_norcal_2), (rw_cal_1, rw_cal_2), (rw_socal_1, rw_socal_2)) \<Rightarrow>
      case num_districts of (num_districts_norcal, num_districts_cal, num_districts_socal) \<Rightarrow>
     ebind (walk rw_california_1 (nat num_districts_california) r) (\<lambda>(california_1, r1).
     ebind (walk rw_california_2 (nat num_districts_california) r1) (\<lambda>(california_2, r2).
     ebind (walk rw_california_3 (nat num_districts_california) r2) (\<lambda>(california_3, r3).
     ebind (walk rw_norcal_1 (nat num_districts_norcal) r3) (\<lambda>(norcal_1, r4).
     ebind (walk rw_norcal_2 (nat num_districts_norcal) r4) (\<lambda>(norcal_2, r5).
     ebind (walk rw_cal_1 (nat num_districts_cal) r5) (\<lambda>(cal_1, r6).
     ebind (walk rw_cal_2 (nat num_districts_cal) r6) (\<lambda>(cal_2, r7).
     ebind (walk rw_socal_1 (nat num_districts_socal) r7) (\<lambda>(socal_1, r8).
     ebind (walk rw_socal_2 (nat num_districts_socal) r8) (\<lambda>(socal_2, r9).
     Inr (((california_1, california_2, california_3), (norcal_1, norcal_2),
           (cal_1, cal_2), (socal_1, socal_2)), r9)))))))))))"

definition walk_demographic_chain ::
  "'r engine \<Rightarrow> 'r chain \<Rightarrow> nat \<Rightarrow> 'r \<Rightarrow> error + ((nat list \<times> nat list) \<times> 'r)" where
  "walk_demographic_chain E rw num_districts r =
     ebind (run_chain (retry_ceiling E) rw r) (\<lambda>(states, r').
     ebind (walk_demographic states num_districts) (\<lambda>ens. Inr (ens, r')))"

definition walk_voting_chain ::
  "'r engine \<Rightarrow> 'r chain \<Rightarrow> nat \<Rightarrow> 'r
   \<Rightarrow> error + ((nat list \<times> nat list \<times> rat list) \<times> 'r)" where
  "walk_voting_chain E rw num_districts r =
     ebind (run_chain (retry_ceiling E) rw r) (\<lambda>(states, r').
     ebind (walk_voting states num_districts) (\<lambda>ens. Inr (ens, r')))"

text \<open>
  What is handed to \<^verbatim>\<open>__pickle\<close>: category, file name and ensemble, in the
  order of the calls (lines 359--371, 810--829).
\<close>

datatype ensemble = Counts "nat list" | Quotients "rat list"

definition pickle_demographic ::
  "(nat list \<times> nat list) nine \<Rightarrow> (string \<times> string \<times> ensemble) list" where
  "pickle_demographic ens =
     (case ens of
        (((cutedges_california_1, majmin_california_1),
          (cutedges_california_2, majmin_california_2),
          (cutedges_california_3, majmin_california_3)),
         ((cutedges_norcal_1, majmin_norcal_1), (cutedges_norcal_2, majmin_norcal_2)),
         ((cutedges_cal_1, majmin_cal_1), (cutedges_cal_2, majmin_cal_2)),
         ((cutedges_socal_1, majmin_socal_1), (cutedges_socal_2, majmin_socal_2))) \<Rightarrow>
      let cutedges_cal3_1 = cal3 cutedges_norcal_1 cutedges_cal_1 cutedges_socal_1;
          cutedges_cal3_2 = cal3 cutedges_norcal_2 cutedges_cal_2 cutedges_socal_2;
          majmin_cal3_1 = cal3 majmin_norcal_1 majmin_cal_1 majmin_socal_1;
          majmin_cal3_2 = cal3 majmin_norcal_2 majmin_cal_2 majmin_socal_2
      in [(''cut_edges'', ''cutedges_california_1'', Counts cutedges_california_1),
          (''cut_edges'', ''cutedges_california_2'', Counts cutedges_california_2),
          (''cut_edges'', ''cutedges_california_3'', Counts cutedges_california_3),
          (''cut_edges'', ''cutedges_cal3_1'', Counts cutedges_cal3_1),
          (''cut_edges'', ''cutedges_cal3_2'', Counts cutedges_cal3_2),
          (''majority-minority'', ''majmin_california_1'', Counts majmin_california_1),
          (''majority-minority'', ''majmin_california_2'', Counts majmin_california_2),
          (''majority-minority'', ''majmin_california_3'', Counts majmin_california_3),
          (''majority-minority'', ''majmin_cal3_1'', Counts majmin_cal3_1),
          (''majority-minority'', ''majmin_cal3_2'', Counts majmin_cal3_2)])"

definition demographic_updaters :: "(string \<times> updater) list" where
  "demographic_updaters =
     [(''cut_edges'', Cut_edges),
      (''district_totpop'', Tally ''total_pop''),
      (''district_hispanic_latino_pop'', Tally ''hispanic_latino_pop'')]"

text \<open>
  \<^verbatim>\<open>make_demographic_ensembles\<close> with \<^verbatim>\<open>make_objects=False\<close>: the
  four graphs are read from disk and are inputs here. The result is the list of
  pickled ensembles and the final state of the generator; the progress lines
  printed on the way are not modelled.
\<close>

definition make_demographic_ensembles ::
  "'r engine \<Rightarrow> nat \<Rightarrow> graph \<Rightarrow> graph \<Rightarrow> graph \<Rightarrow> graph \<Rightarrow> 'r
   \<Rightarrow> error + ((string \<times> string \<times> ensemble) list \<times> 'r)" where
  "make_demographic_ensembles E steps graph_california graph_norcal graph_cal graph_socal r =
     ebind (population_variables seats_demographic ''total_pop''
              graph_california graph_norcal graph_cal graph_socal) (\<lambda>vars.
     ebind (initial_partitions E ''total_pop'' demographic_updaters
              graph_california graph_norcal graph_cal graph_socal vars r) (\<lambda>(parts, r1).
     ebind (prepare_walks E ''total_pop'' ''district_totpop'' steps vars parts) (\<lambda>rws.
     ebind (do_walks (walk_demographic_chain E) rws (fst (snd vars)) r1) (\<lambda>(ens, r2).
     Inr (pickle_demographic ens, r2)))))"

definition pickle_voting ::
  "(nat list \<times> nat list \<times> rat list) nine \<Rightarrow> (string \<times> string \<times> ensemble) list" where
  "pickle_voting ens =
     (case ens of
        (((cutedges_california_1, republican_seats_california_1, efficiency_gap_california_1),
          (cutedges_california_2, republican_seats_california_2, efficiency_gap_california_2),
          (cutedges_california_3, republican_seats_california_3, efficiency_gap_california_3)),
         ((cutedges_norcal_1, republican_seats_norcal_1, efficiency_gap_norcal_1),
          (cutedges_norcal_2, republican_seats_norcal_2, efficiency_gap_norcal_2)),
         ((cutedges_cal_1, republican_seats_cal_1, efficiency_gap_cal_1),
          (cutedges_cal_2, republican_seats_cal_2, efficiency_gap_cal_2)),
         ((cutedges_socal_1, republican_seats_socal_1, efficiency_gap_socal_1),
          (cutedges_socal_2, republican_seats_socal_2, efficiency_gap_socal_2))) \<Rightarrow>
      let cutedges_cal3_1 = cal3 cutedges_norcal_1 cutedges_cal_1 cutedges_socal_1;
          cutedges_cal3_2 = cal3 cutedges_norcal_2 cutedges_cal_2 cutedges_socal_2;
          republican_seats_cal3_1 =
            cal3 republican_seats_norcal_1 republican_seats_cal_1 republican_seats_socal_1;
          republican_seats_cal3_2 =
            cal3 republican_seats_norcal_2 republican_seats_cal_2 republican_seats_socal_2;
          efficiency_gap_cal3_1 =
            cal3 efficiency_gap_norcal_1 efficiency_gap_cal_1 efficiency_gap_socal_1;
          efficiency_gap_cal3_2 =
            cal3 efficiency_gap_norcal_2 efficiency_gap_cal_2 efficiency_gap_socal_2
      in [(''cut_edges'', ''cutedges_california_1'', Counts cutedges_california_1),
          (''cut_edges'', ''cutedges_california_2'', Counts cutedges_california_2),
          (''cut_edges'', ''cutedges_california_3'', Counts cutedges_california_3),
          (''cut_edges'', ''cutedges_cal3_1'', Counts cutedges_cal3_1),
          (''cut_edges'', ''cutedges_cal3_2'', Counts cutedges_cal3_2),
          (''republican_seats'', ''republican_seats_california_1'',
             Counts republican_seats_california_1),
          (''republican_seats'', ''republican_seats_california_2'',
             Counts republican_seats_california_2),
          (''republican_seats'', ''republican_seats_california_3'',
             Counts republican_seats_california_3),
          (''republican_seats'', ''republican_seats_cal3_1'', Counts republican_seats_cal3_1),
          (''republican_seats'', ''republican_seats_cal3_2'', Counts republican_seats_cal3_2),
          (''efficiency_gap'', ''efficiency_gap_california_1'',
             Quotients efficiency_gap_california_1),
          (''efficiency_gap'', ''efficiency_gap_california_2'',
             Quotients efficiency_gap_california_2),
          (''efficiency_gap'', ''efficiency_gap_california_3'',
             Quotients efficiency_gap_california_3),
          (''efficiency_gap'', ''efficiency_gap_cal3_1'', Quotients efficiency_gap_cal3_1),
          (''efficiency_gap'', ''efficiency_gap_cal3_2'', Quotients efficiency_gap_cal3_2)])"

definition voting_updaters :: "(string \<times> updater) list" where
  "voting_updaters =
     [(''cut_edges'', Cut_edges),
      (''district_totvotes'', Tally ''total_votes''),
      (''district_democrat_votes'', Tally ''democrat_votes''),
      (''district_republican_votes'', Tally ''republican_votes'')]"

text \<open>\<^verbatim>\<open>make_voting_ensembles\<close>, likewise.\<close>

definition make_voting_ensembles ::
  "'r engine \<Rightarrow> nat \<Rightarrow> graph \<Rightarrow> graph \<Rightarrow> graph \<Rightarrow> graph \<Rightarrow> 'r
   \<Rightarrow> error + ((string \<times> string \<times> ensemble) list \<times> 'r)" where
  "make_voting_ensembles E steps graph_california graph_norcal graph_cal graph_socal r =
     ebind (population_variables seats_voting ''total_votes''
              graph_california graph_norcal graph_cal graph_socal) (\<lambda>vars.
     ebind (initial_partitions E ''total_votes'' voting_updaters
              graph_california graph_norcal graph_cal graph_socal vars r) (\<lambda>(parts, r1).
     ebind (prepare_walks E ''total_votes'' ''district_totvotes'' steps vars parts) (\<lambda>rws.
     ebind (do_walks (walk_voting_chain E) rws (fst (snd vars)) r1) (\<lambda>(ens, r2).
     Inr (pickle_voting ens, r2)))))"



section \<open>Lemmas\<close>

subsection \<open>The walks on plans with positive totals\<close>

lemma ebind_Inr [simp]: "ebind (Inr v) f = f v"
  by (simp add: ebind_def)

lemma ebind_Inl [simp]: "ebind (Inl e) f = Inl e"
  by (simp add: ebind_def)




lemma share_gt_half:
  "0 < t \<Longrightarrow> (1 / 2 < (of_int x :: rat) / of_int t) = ((of_int t :: rat) / 2 < of_int x)"
  by (simp add: field_simps)




text \<open>
  When the two party tallies are parts of the cast total, at most one of them
  exceeds half of it, so the order of the two tests does not matter.
\<close>

lemma not_both_win:
  assumes "0 \<le> r" and "0 \<le> d" and "r + d \<le> t"
  shows "\<not> ((of_int t :: rat) / 2 < of_int r \<and> (of_int t :: rat) / 2 < of_int d)"
proof
  assume "(of_int t :: rat) / 2 < of_int r \<and> (of_int t :: rat) / 2 < of_int d"
  then have "(of_int t :: rat) < of_int r + of_int d"
    by (simp add: field_simps)
  then have "(of_int t :: rat) < of_int (r + d)"
    by simp
  then have "t < r + d"
    by (simp only: of_int_less_iff)
  with assms(3) show False by simp
qed

subsection \<open>What a successful extraction implies\<close>

lemma ebind_eq_Inr: "ebind m f = Inr y \<Longrightarrow> \<exists>x. m = Inr x \<and> f x = Inr y"
  by (cases m) simp_all

lemma is_majmin_Inr:
  assumes "is_majmin part i = Inr b"
  shows "\<exists>t. get_tally part ''district_totpop'' i = Inr t \<and> t \<noteq> 0"
proof -
  from assms obtain h where h: "get_tally part ''district_hispanic_latino_pop'' i = Inr h"
    and 1: "ebind (get_tally part ''district_totpop'' i) (\<lambda>t.
             ebind (true_div (of_int h) (of_int t)) (\<lambda>q. Inr (q > 1 / 2))) = Inr b"
    unfolding is_majmin_def by (blast dest: ebind_eq_Inr)
  from 1 obtain t where t: "get_tally part ''district_totpop'' i = Inr t"
    and 2: "ebind (true_div (of_int h) (of_int t)) (\<lambda>q. Inr (q > 1 / 2)) = Inr b"
    by (blast dest: ebind_eq_Inr)
  from 2 have "t \<noteq> 0"
    by (auto simp: true_div_def split: if_splits)
  with t show ?thesis by blast
qed

lemma count_majmin_Inr:
  "count_majmin part ds c = Inr n \<Longrightarrow>
   \<forall>i\<in>set ds. \<exists>t. get_tally part ''district_totpop'' i = Inr t \<and> t \<noteq> 0"
proof (induction ds arbitrary: c)
  case Nil
  then show ?case by simp
next
  case (Cons i ds)
  from Cons.prems obtain b where b: "is_majmin part i = Inr b"
    and rest: "count_majmin part ds (if b then c + 1 else c) = Inr n"
    by (auto dest: ebind_eq_Inr)
  from is_majmin_Inr [OF b] Cons.IH [OF rest] show ?case by simp
qed

lemma district_step_Inr:
  assumes "district_step part i v = Inr v'"
  shows "\<exists>t. get_tally part ''district_totvotes'' i = Inr t \<and> t \<noteq> 0"
proof -
  from assms obtain t where t: "get_tally part ''district_totvotes'' i = Inr t"
    and 1: "ebind (get_tally part ''district_republican_votes'' i) (\<lambda>votes_republican.
     ebind (get_tally part ''district_democrat_votes'' i) (\<lambda>votes_democrat.
     ebind (true_div (of_int votes_republican) (of_int t)) (\<lambda>share_republican.
     ebind
       (if share_republican > 1 / 2 then
          Inr (v\<lparr>seats := seats v + 1,
                 wasted_republican :=
                   wasted_republican v + (of_int votes_republican - of_int t / 2),
                 wasted_democrat := wasted_democrat v + of_int votes_democrat\<rparr>)
        else
          ebind (true_div (of_int votes_democrat) (of_int t)) (\<lambda>share_democrat.
          if share_democrat > 1 / 2 then
            Inr (v\<lparr>wasted_republican := wasted_republican v + of_int votes_republican,
                   wasted_democrat :=
                     wasted_democrat v + (of_int votes_democrat - of_int t / 2)\<rparr>)
          else Inr v))
       (\<lambda>v'. Inr (v'\<lparr>plan_totvotes := plan_totvotes v' + t\<rparr>))))) = Inr v'"
    unfolding district_step_def Let_def by (blast dest: ebind_eq_Inr)
  from 1 obtain r d q where "true_div (of_int r) (of_int t) = Inr q"
    by (blast dest: ebind_eq_Inr)
  then have "t \<noteq> 0"
    by (auto simp: true_div_def split: if_splits)
  with t show ?thesis by blast
qed

lemma district_loop_Inr:
  "district_loop part ds v = Inr v' \<Longrightarrow>
   \<forall>i\<in>set ds. \<exists>t. get_tally part ''district_totvotes'' i = Inr t \<and> t \<noteq> 0"
proof (induction ds arbitrary: v)
  case Nil
  then show ?case by simp
next
  case (Cons i ds)
  from Cons.prems obtain w where w: "district_step part i v = Inr w"
    and rest: "district_loop part ds w = Inr v'"
    by (auto dest: ebind_eq_Inr)
  from district_step_Inr [OF w] Cons.IH [OF rest] show ?case by simp
qed

lemma is_majmin_zero:
  assumes "get_tally part ''district_hispanic_latino_pop'' i = Inr h"
    and "get_tally part ''district_totpop'' i = Inr 0"
  shows "is_majmin part i = Inl ZeroDivisionError"
  using assms by (simp add: is_majmin_def true_div_def)

lemma district_step_zero:
  assumes "get_tally part ''district_totvotes'' i = Inr 0"
    and "get_tally part ''district_republican_votes'' i = Inr r"
    and "get_tally part ''district_democrat_votes'' i = Inr d"
  shows "district_step part i v = Inl ZeroDivisionError"
  using assms by (simp add: district_step_def true_div_def)

subsection \<open>Rounding and seat counts\<close>



lemma regional_seats_zero:
  "regional_seats totpop 0 = Inl ZeroDivisionError"
  by (simp add: regional_seats_def true_div_def)

subsection \<open>The chain driver\<close>

lemma next_state_valid:
  "next_state ch attempts state r = Inr (state', r') \<Longrightarrow> accept ch = always_accept \<Longrightarrow>
   is_valid ch state'"
  by (induction attempts arbitrary: r)
     (auto simp: always_accept_def split: prod.splits option.splits if_splits)

lemma chain_steps_valid:
  "chain_steps ch max_attempts k state r = Inr (states, r') \<Longrightarrow> accept ch = always_accept \<Longrightarrow>
   \<forall>s\<in>set states. is_valid ch s"
proof (induction k arbitrary: state r states)
  case 0
  then show ?case by simp
next
  case (Suc k)
  from Suc.prems(1) obtain s1 r1 where n: "next_state ch max_attempts state r = Inr (s1, r1)"
    and 1: "ebind (chain_steps ch max_attempts k s1 r1) (\<lambda>(rest, r''). Inr (s1 # rest, r''))
            = Inr (states, r')"
    by (auto dest!: ebind_eq_Inr)
  from 1 obtain rest where c: "chain_steps ch max_attempts k s1 r1 = Inr (rest, r')"
    and st: "states = s1 # rest"
    by (auto dest!: ebind_eq_Inr)
  from next_state_valid [OF n Suc.prems(2)] Suc.IH [OF c Suc.prems(2)] st
  show ?case by simp
qed



lemma run_chain_valid:
  "run_chain max_attempts ch r = Inr (states, r') \<Longrightarrow> accept ch = always_accept \<Longrightarrow>
   \<forall>s\<in>set (tl states). is_valid ch s"
  by (auto simp: run_chain_def split: nat.splits dest!: ebind_eq_Inr dest: chain_steps_valid)

subsection \<open>The walks over a chain\<close>






subsection \<open>A chain with valid proposals returns\<close>




subsection \<open>The sample chain\<close>

lemma ideal_two_demo: "ideal_population_of two_demo ''district_totpop'' = Inr 100"
  by (simp add: ideal_population_of_def two_demo_def true_div_def)

lemma two_demo_within_tolerance: "within_tolerance two_demo ''district_totpop'' 100 pop_tolerance"
  by (simp add: within_tolerance_def two_demo_def pop_tolerance_def)

lemma sample_chain_run: "run_chain 1 (markov_chain steady
     (\<lambda>part. within_tolerance part ''district_totpop'' 100 pop_tolerance) two_demo 2) ()
   = Inr ([two_demo, two_demo], ())"
  by (simp add: run_chain_def markov_chain_def numeral_2_eq_2 steady_def is_valid_def two_demo_within_tolerance
      always_accept_def)

lemma constraint_two_demo:
  "within_percent_of_ideal_population two_demo pop_tolerance ''district_totpop''
   = Inr (\<lambda>part. within_tolerance part ''district_totpop'' 100 pop_tolerance)"
  by (simp add: within_percent_of_ideal_population_def ideal_two_demo)


subsection \<open>Seeding makes the generators independent of the prior state\<close>

lemma make_plans_seeded:
  "make_plans E g K ideal key tol (seed # seeds) r1 =
   make_plans E g K ideal key tol (seed # seeds) r2"
  by simp

lemma random_partitions_seeded:
  "random_partitions E g K ideal key tol upd (seed # seeds) r1 =
   random_partitions E g K ideal key tol upd (seed # seeds) r2"
  unfolding random_partitions_def by (simp only: make_plans_seeded [of _ _ _ _ _ _ _ _ r1 r2])

lemma random_partitions_plans:
  "map_sum id fst (random_partitions E g K ideal key tol upd seeds r1) =
   map_sum id fst (random_partitions E g K ideal key tol upd seeds r2)"
proof (cases seeds)
  case Nil
  then show ?thesis by (simp add: random_partitions_def)
next
  case (Cons seed rest)
  then show ?thesis
    by (simp only: random_partitions_seeded [of _ _ _ _ _ _ _ _ _ r1 r2])
qed

lemma initial_partitions_seeded:
  "initial_partitions E key upd g1 g2 g3 g4 vars r1 =
   initial_partitions E key upd g1 g2 g3 g4 vars r2"
  unfolding initial_partitions_def
  by (simp only: random_partitions_seeded [of _ _ _ _ _ _ _ 0 "[3, 4]" r1 r2])

subsection \<open>Errors of the population variables\<close>







section \<open>Claims\<close>





text \<open>
  C5. A district in which neither party's votes exceed half of the cast total
  adds nothing to either wasted-vote total and no seat, and its cast total is
  added to the denominator of the gap. This holds for a district with a
  positive cast total; a district with cast total zero
  and no party votes is also such a district, and there the division of line
  706 raises \<^verbatim>\<open>ZeroDivisionError\<close>, so no gap is reported.
\<close>

theorem tie_adds_nothing:
  assumes "get_tally part ''district_totvotes'' i = Inr t"
    and "get_tally part ''district_republican_votes'' i = Inr r"
    and "get_tally part ''district_democrat_votes'' i = Inr d"
    and "0 < t"
    and "\<not> (of_int t :: rat) / 2 < of_int r"
    and "\<not> (of_int t :: rat) / 2 < of_int d"
  shows "district_step part i v = Inr (v\<lparr>plan_totvotes := plan_totvotes v + t\<rparr>)"
  using assms
  by (simp add: district_step_def true_div_def share_gt_half Let_def)

theorem tie_adds_nothing_witness:
  "district_step (vote_part 100 50 50) 0 init_vars =
     Inr \<lparr>seats = 0, wasted_democrat = 0, wasted_republican = 0, plan_totvotes = 100\<rparr>"
proof -
  have g: "get_tally (vote_part 100 50 50) ''district_totvotes'' 0 = Inr 100"
    "get_tally (vote_part 100 50 50) ''district_republican_votes'' 0 = Inr 50"
    "get_tally (vote_part 100 50 50) ''district_democrat_votes'' 0 = Inr 50"
    by (simp_all add: vote_part_def get_tally_def)
  have "district_step (vote_part 100 50 50) 0 init_vars =
      Inr (init_vars\<lparr>plan_totvotes := plan_totvotes init_vars + 100\<rparr>)"
    by (rule tie_adds_nothing [OF g]) simp_all
  then show ?thesis by (simp add: init_vars_def)
qed

theorem tie_adds_nothing_counterexample:
  "\<not> ((of_int 0 :: rat) / 2 < of_int 0)
   \<and> get_tally (vote_part 0 0 0) ''district_totvotes'' 0 = Inr 0
   \<and> get_tally (vote_part 0 0 0) ''district_republican_votes'' 0 = Inr 0
   \<and> get_tally (vote_part 0 0 0) ''district_democrat_votes'' 0 = Inr 0
   \<and> district_step (vote_part 0 0 0) 0 init_vars = Inl ZeroDivisionError
   \<and> district_step (vote_part 0 0 0) 0 init_vars \<noteq>
       Inr (init_vars\<lparr>plan_totvotes := plan_totvotes init_vars + 0\<rparr>)
   \<and> efficiency_gap (vote_part 0 0 0) 1 = Inl ZeroDivisionError"
  by (simp add: efficiency_gap_def tally_districts_def district_step_def vote_part_def
      get_tally_def true_div_def)

text \<open>
  C8. The extractors divide by the district's primary aggregate without a
  guard: whenever an extraction succeeds, every district's primary aggregate
  was present and nonzero; a district whose aggregate is zero makes the
  district test or the district step raise \<^verbatim>\<open>ZeroDivisionError\<close>; and
  the one-district plans with aggregate zero make both extractions fail.
\<close>

theorem extraction_needs_nonzero_totals:
  "(majmin part K = Inr c \<longrightarrow>
      (\<forall>i<K. \<exists>t. get_tally part ''district_totpop'' i = Inr t \<and> t \<noteq> 0))
   \<and> (efficiency_gap part K = Inr g \<longrightarrow>
      (\<forall>i<K. \<exists>t. get_tally part ''district_totvotes'' i = Inr t \<and> t \<noteq> 0))
   \<and> (get_tally part ''district_hispanic_latino_pop'' i = Inr h \<and>
       get_tally part ''district_totpop'' i = Inr 0 \<longrightarrow>
       is_majmin part i = Inl ZeroDivisionError)
   \<and> (get_tally part ''district_totvotes'' i = Inr 0 \<and>
       get_tally part ''district_republican_votes'' i = Inr r \<and>
       get_tally part ''district_democrat_votes'' i = Inr d \<longrightarrow>
       district_step part i v = Inl ZeroDivisionError)
   \<and> majmin (demo_part 0 0) 1 = Inl ZeroDivisionError
   \<and> efficiency_gap (vote_part 0 0 0) 1 = Inl ZeroDivisionError"
proof -
  have a: "\<forall>i<K. \<exists>t. get_tally part ''district_totpop'' i = Inr t \<and> t \<noteq> 0"
    if "majmin part K = Inr c"
    using count_majmin_Inr [of part "[0..<K]" 0 c] that by (simp add: majmin_def)
  have b: "\<forall>i<K. \<exists>t. get_tally part ''district_totvotes'' i = Inr t \<and> t \<noteq> 0"
    if "efficiency_gap part K = Inr g"
  proof -
    from that obtain w where "district_loop part [0..<K] init_vars = Inr w"
      unfolding efficiency_gap_def tally_districts_def by (blast dest: ebind_eq_Inr)
    from district_loop_Inr [OF this] show ?thesis by simp
  qed
  have e1: "majmin (demo_part 0 0) 1 = Inl ZeroDivisionError"
    by (simp add: majmin_def demo_part_def is_majmin_def get_tally_def true_div_def)
  have e2: "efficiency_gap (vote_part 0 0 0) 1 = Inl ZeroDivisionError"
    by (simp add: efficiency_gap_def tally_districts_def district_step_def vote_part_def
        get_tally_def true_div_def)
  from a b e1 e2 is_majmin_zero [of part i h] district_step_zero [of part i r d v]
  show ?thesis by blast
qed

theorem extraction_needs_nonzero_totals_witness:
  "(\<exists>t. get_tally two_demo ''district_totpop'' 1 = Inr t \<and> t \<noteq> 0)
   \<and> (\<exists>t. get_tally two_votes ''district_totvotes'' 1 = Inr t \<and> t \<noteq> 0)
   \<and> is_majmin (demo_part 0 0) 0 = Inl ZeroDivisionError
   \<and> district_step (vote_part 0 0 0) 0 init_vars = Inl ZeroDivisionError"
proof -
  have m: "majmin two_demo 2 = Inr 1"
    by (simp add: majmin_def two_demo_def is_majmin_def get_tally_def true_div_def
        numeral_2_eq_2)
  have g: "efficiency_gap two_votes 2 = Inr (1 / 10)"
    by (simp add: efficiency_gap_def tally_districts_def district_step_def two_votes_def
        get_tally_def true_div_def gap_of_def init_vars_def numeral_2_eq_2)
  have z1: "get_tally (demo_part 0 0) ''district_hispanic_latino_pop'' 0 = Inr 0 \<and>
       get_tally (demo_part 0 0) ''district_totpop'' 0 = Inr 0"
    by (simp add: demo_part_def get_tally_def)
  have z2: "get_tally (vote_part 0 0 0) ''district_totvotes'' 0 = Inr 0 \<and>
       get_tally (vote_part 0 0 0) ''district_republican_votes'' 0 = Inr 0 \<and>
       get_tally (vote_part 0 0 0) ''district_democrat_votes'' 0 = Inr 0"
    by (simp add: vote_part_def get_tally_def)
  have w1: "\<exists>t. get_tally two_demo ''district_totpop'' 1 = Inr t \<and> t \<noteq> 0"
    using extraction_needs_nonzero_totals [where part = two_demo and K = 2 and c = 1] m
    by simp
  have w2: "\<exists>t. get_tally two_votes ''district_totvotes'' 1 = Inr t \<and> t \<noteq> 0"
    using extraction_needs_nonzero_totals [where part = two_votes and K = 2 and g = "1 / 10"] g
    by simp
  have w3: "is_majmin (demo_part 0 0) 0 = Inl ZeroDivisionError"
    using extraction_needs_nonzero_totals [where part = "demo_part 0 0" and i = 0 and h = 0] z1
    by simp
  have w4: "district_step (vote_part 0 0 0) 0 init_vars = Inl ZeroDivisionError"
    using extraction_needs_nonzero_totals
      [where part = "vote_part 0 0 0" and i = 0 and r = 0 and d = 0 and v = init_vars] z2
    by simp
  from w1 w2 w3 w4 show ?thesis by blast
qed

text \<open>
  C6. For three regional ensembles of the same length \<open>n\<close>, the combined
  Cal 3 ensemble has length \<open>n\<close> and its \<open>i\<close>-th element is the sum of
  the three regions' \<open>i\<close>-th elements.
\<close>

theorem cal3_elementwise_sum:
  assumes "length norcal_ens = n" and "length cal_ens = n" and "length socal_ens = n"
  shows "length (cal3 norcal_ens cal_ens socal_ens) = n
         \<and> (\<forall>i<n. cal3 norcal_ens cal_ens socal_ens ! i =
               norcal_ens ! i + cal_ens ! i + socal_ens ! i)"
  using assms by (simp add: cal3_def)

theorem cal3_elementwise_sum_witness:
  "cal3 [1, 2, 3 :: nat] [10, 20, 30] [100, 200, 300] ! 1 = 222
   \<and> length (cal3 [1, 2, 3 :: nat] [10, 20, 30] [100, 200, 300]) = 3"
  using cal3_elementwise_sum [of "[1, 2, 3 :: nat]" 3 "[10, 20, 30]" "[100, 200, 300]"]
  by simp

text \<open>
  C9. For three regional ensembles of any lengths, the combined Cal 3
  ensemble has the minimum of the three lengths: it is the combination of the
  three ensembles cut to that length, element by element, and no error value
  exists in its type.
\<close>

theorem cal3_truncates:
  "length (cal3 norcal_ens cal_ens socal_ens) =
     min (length norcal_ens) (min (length cal_ens) (length socal_ens))
   \<and> cal3 norcal_ens cal_ens socal_ens =
       cal3 (take (length (cal3 norcal_ens cal_ens socal_ens)) norcal_ens)
            (take (length (cal3 norcal_ens cal_ens socal_ens)) cal_ens)
            (take (length (cal3 norcal_ens cal_ens socal_ens)) socal_ens)
   \<and> (\<forall>i < length (cal3 norcal_ens cal_ens socal_ens).
         cal3 norcal_ens cal_ens socal_ens ! i = norcal_ens ! i + cal_ens ! i + socal_ens ! i)
   \<and> cal3 [1, 2, 3 :: nat] [10, 20] [100, 200, 300, 400] = [111, 222]"
proof -
  let ?m = "length (cal3 norcal_ens cal_ens socal_ens)"
  have len: "?m = min (length norcal_ens) (min (length cal_ens) (length socal_ens))"
    by (simp add: cal3_def)
  have "zip (take ?m norcal_ens) (zip (take ?m cal_ens) (take ?m socal_ens)) =
        take ?m (zip norcal_ens (zip cal_ens socal_ens))"
    by (simp only: take_zip)
  also have "\<dots> = zip norcal_ens (zip cal_ens socal_ens)"
    by (simp add: cal3_def)
  finally have tk: "cal3 norcal_ens cal_ens socal_ens =
       cal3 (take ?m norcal_ens) (take ?m cal_ens) (take ?m socal_ens)"
    by (simp only: cal3_def)
  have el: "\<forall>i < ?m. cal3 norcal_ens cal_ens socal_ens ! i =
      norcal_ens ! i + cal_ens ! i + socal_ens ! i"
    by (simp add: cal3_def)
  have ex: "cal3 [1, 2, 3 :: nat] [10, 20] [100, 200, 300, 400] = [111, 222]"
    by (simp add: cal3_def)
  from len tk el ex show ?thesis by blast
qed

theorem cal3_truncates_witness:
  "cal3 [1, 2, 3 :: nat] [10, 20] [100, 200, 300, 400] ! 1 = 222
   \<and> length (cal3 [1, 2, 3 :: nat] [10, 20] [100, 200, 300, 400]) = 2"
  using cal3_truncates [of "[1, 2, 3 :: nat]" "[10, 20]" "[100, 200, 300, 400]"]
  by simp

text \<open>
  C3. Every state a chain yields after its initial state satisfies the
  population constraint the chain was built with: every district's primary
  sum lies within the relative tolerance 0.02 of the ideal value (the total of
  the constraint's partition divided by its number of districts).
\<close>

theorem accepted_states_within_tolerance:
  assumes "within_percent_of_ideal_population part_1 pop_tolerance pop_key = Inr constraint"
    and "run_chain max_attempts (markov_chain proposal' constraint initial steps) r
         = Inr (states, r')"
    and "s \<in> set (tl states)"
  shows "\<exists>ideal d. ideal_population_of part_1 pop_key = Inr ideal
           \<and> tally s pop_key = Some d
           \<and> (\<forall>i\<in>dom d. \<bar>of_int (the (d i)) - ideal\<bar> \<le> (2 / 100) * ideal)"
proof -
  from assms(1) obtain ideal where i: "ideal_population_of part_1 pop_key = Inr ideal"
    and c: "constraint = (\<lambda>part. within_tolerance part pop_key ideal pop_tolerance)"
    unfolding within_percent_of_ideal_population_def by (auto dest!: ebind_eq_Inr)
  have "is_valid (markov_chain proposal' constraint initial steps) s"
    using run_chain_valid [OF assms(2)] assms(3) by (simp add: markov_chain_def)
  then have "within_tolerance s pop_key ideal pop_tolerance"
    by (simp add: is_valid_def markov_chain_def c)
  then obtain d where "tally s pop_key = Some d"
    "\<forall>i\<in>dom d. \<bar>of_int (the (d i)) - ideal\<bar> \<le> (2 / 100) * ideal"
    by (auto simp: within_tolerance_def pop_tolerance_def split: option.splits)
  with i show ?thesis by blast
qed

theorem accepted_states_within_tolerance_witness:
  "\<exists>ideal d. ideal_population_of two_demo ''district_totpop'' = Inr ideal
      \<and> tally two_demo ''district_totpop'' = Some d
      \<and> (\<forall>i\<in>dom d. \<bar>of_int (the (d i)) - ideal\<bar> \<le> (2 / 100) * ideal)"
proof -
  have "two_demo \<in> set (tl [two_demo, two_demo])" by simp
  from accepted_states_within_tolerance [OF constraint_two_demo sample_chain_run this]
  show ?thesis .
qed

text \<open>
  C4. Two runs of a generator on the same graphs, with the same number of
  steps (the seeds and the configuration are constants of the code), can differ
  only in the state of the shared random generator on entry. The pickled
  ensembles and the final state of the generator do not depend on it, and
  neither do the partitions \<^verbatim>\<open>__random_partitions\<close> builds from given
  seeds and a given graph: the generator is seeded before every plan.
\<close>

theorem ensembles_independent_of_ambient_random_state:
  "make_demographic_ensembles E steps graph_california graph_norcal graph_cal graph_socal r1 =
   make_demographic_ensembles E steps graph_california graph_norcal graph_cal graph_socal r2
   \<and> make_voting_ensembles E steps graph_california graph_norcal graph_cal graph_socal r1 =
     make_voting_ensembles E steps graph_california graph_norcal graph_cal graph_socal r2
   \<and> map_sum id fst (random_partitions E g K ideal key tol upd seeds r1) =
     map_sum id fst (random_partitions E g K ideal key tol upd seeds r2)"
  unfolding make_demographic_ensembles_def make_voting_ensembles_def
  by (simp only: initial_partitions_seeded [of _ _ _ _ _ _ _ _ r1 r2]
      random_partitions_plans [of _ _ _ _ _ _ _ _ r1 r2] simp_thms)






end
